theory Spec2Isabelle
  imports Complex_Main
begin

section \<open>Numbers, vectors and matrices\<close>

text \<open>
  The module \<open>tesse_ros_bridge/utils.py\<close> computes with Python floats and numpy arrays of
  float64. Two of its functions are claimed to return particular numbers, and there the
  float64 arithmetic is not replaced by exact arithmetic: \<open>get_acc_brh\<close> and
  \<open>generate_camera_info\<close> take the machine's operations as a parameter and compute with
  whatever those return (rounded values, \<open>inf\<close>, \<open>nan\<close>). The exact operations on the reals
  are one instance, used to evaluate examples. The frame conversion and the IMU message are
  stated over the reals: they describe which entries are combined with which.
  Integers (\<open>int(...)\<close> in \<open>parse_cam_data\<close>) are \<^typ>\<open>int\<close>, and \<open>/\<close> between two of them
  is Python 3's true division.

  A numpy array of shape (3,) with real entries is a \<open>vec3\<close>, one of shape (3,3) a \<open>mat3\<close>
  (three rows), and likewise \<open>vec4\<close> and \<open>mat4\<close>.
\<close>

datatype vec3 = Vec3 real real real

datatype mat3 = Mat3 vec3 vec3 vec3

datatype vec4 = Vec4 real real real real

datatype mat4 = Mat4 vec4 vec4 vec4 vec4

text \<open>
  An \<open>assert\<close> that fails raises \<open>AssertionError\<close>; the string is the asserted expression,
  which is what the traceback shows of it. Python raises \<open>OverflowError\<close> when an integer is
  too large for the float it is converted to.
\<close>

datatype failure = AssertionError string | OverflowError

text \<open>Indexing \<open>v[0]\<close>, \<open>v[1]\<close>, \<open>v[2]\<close>.\<close>

fun vx :: "vec3 \<Rightarrow> real" where
  "vx (Vec3 x y z) = x"



text \<open>\<open>a - b\<close> and \<open>a / s\<close> on arrays, elementwise (the divisor is not zero).\<close>

fun vec3_sub :: "vec3 \<Rightarrow> vec3 \<Rightarrow> vec3" where
  "vec3_sub (Vec3 a b c) (Vec3 x y z) = Vec3 (a - x) (b - y) (c - z)"

fun vec3_div :: "vec3 \<Rightarrow> real \<Rightarrow> vec3" where
  "vec3_div (Vec3 a b c) s = Vec3 (a / s) (b / s) (c / s)"

text \<open>\<open>u.dot(v)\<close> for two vectors, \<open>A.dot(v)\<close> for a matrix and a vector.\<close>

fun inner3 :: "vec3 \<Rightarrow> vec3 \<Rightarrow> real" where
  "inner3 (Vec3 a b c) (Vec3 x y z) = a * x + b * y + c * z"

fun dot3v :: "mat3 \<Rightarrow> vec3 \<Rightarrow> vec3" where
  "dot3v (Mat3 r0 r1 r2) v = Vec3 (inner3 r0 v) (inner3 r1 v) (inner3 r2 v)"

text \<open>\<open>np.transpose(A)\<close>.\<close>

fun transpose3 :: "mat3 \<Rightarrow> mat3" where
  "transpose3 (Mat3 (Vec3 a b c) (Vec3 d e f) (Vec3 g h i)) =
     Mat3 (Vec3 a d g) (Vec3 b e h) (Vec3 c f i)"

text \<open>\<open>A.dot(B)\<close> for two 3x3 matrices: row i of the result is row i of A against the columns of B.\<close>

fun row_mat3 :: "vec3 \<Rightarrow> mat3 \<Rightarrow> vec3" where
  "row_mat3 r B = dot3v (transpose3 B) r"

fun dot3 :: "mat3 \<Rightarrow> mat3 \<Rightarrow> mat3" where
  "dot3 (Mat3 r0 r1 r2) B = Mat3 (row_mat3 r0 B) (row_mat3 r1 B) (row_mat3 r2 B)"

definition identity3 :: mat3 where
  "identity3 = Mat3 (Vec3 1 0 0) (Vec3 0 1 0) (Vec3 0 0 1)"

fun det3 :: "mat3 \<Rightarrow> real" where
  "det3 (Mat3 (Vec3 a b c) (Vec3 d e f) (Vec3 g h i)) =
     a * (e * i - f * h) - b * (d * i - f * g) + c * (d * h - e * g)"

section \<open>Acceleration by finite difference: \<open>get_acc_brh\<close>\<close>

text \<open>
  The four numpy operations of the function, on float64 arrays of shape (3,3) (type \<open>'m\<close>)
  and (3,) (type \<open>'v\<close>): \<open>A.dot(v)\<close>, \<open>np.transpose(A)\<close>, \<open>u - v\<close> and \<open>u / dt\<close>. They are
  numpy's, with its rounding and its \<open>inf\<close> and \<open>nan\<close>; a division by \<open>dt = 0.0\<close> warns and
  does not raise.
\<close>

record ('m, 'v) numpy =
  np_dot :: "'m \<Rightarrow> 'v \<Rightarrow> 'v"
  np_transpose :: "'m \<Rightarrow> 'm"
  np_sub :: "'v \<Rightarrow> 'v \<Rightarrow> 'v"
  np_div :: "'v \<Rightarrow> real \<Rightarrow> 'v"

text \<open>The same operations carried out exactly, on real entries.\<close>

definition exact_numpy :: "(mat3, vec3) numpy" where
  "exact_numpy =
     \<lparr> np_dot = dot3v, np_transpose = transpose3, np_sub = vec3_sub, np_div = vec3_div \<rparr>"

text \<open>
  \<^verbatim>\<open>
  assert(dt >= 0.0)
  vel_enu = enu_R_brh.dot(vel_brh)
  prev_vel_enu = prev_enu_R_brh.dot(prev_vel_brh)
  accel_enu = (vel_enu - prev_vel_enu) / dt
  return np.transpose(enu_R_brh).dot(accel_enu)\<close>
\<close>

definition get_acc_brh ::
  "('m, 'v) numpy \<Rightarrow> 'm \<Rightarrow> 'v \<Rightarrow> 'v \<Rightarrow> 'm \<Rightarrow> real \<Rightarrow> failure + 'v" where
  "get_acc_brh np enu_R_brh vel_brh prev_vel_brh prev_enu_R_brh dt =
     (if \<not> dt \<ge> 0 then Inl (AssertionError ''dt >= 0.0'')
      else
        let vel_enu = np_dot np enu_R_brh vel_brh;
            prev_vel_enu = np_dot np prev_enu_R_brh prev_vel_brh;
            accel_enu = np_div np (np_sub np vel_enu prev_vel_enu) dt
        in Inr (np_dot np (np_transpose np enu_R_brh) accel_enu))"

section \<open>Homogeneous transforms\<close>

text \<open>Indexing and slicing of 4x4 arrays, and their products.\<close>

fun inner4 :: "vec4 \<Rightarrow> vec4 \<Rightarrow> real" where
  "inner4 (Vec4 a b c d) (Vec4 x y z w) = a * x + b * y + c * z + d * w"

fun dot4v :: "mat4 \<Rightarrow> vec4 \<Rightarrow> vec4" where
  "dot4v (Mat4 r0 r1 r2 r3) v = Vec4 (inner4 r0 v) (inner4 r1 v) (inner4 r2 v) (inner4 r3 v)"

fun transpose4 :: "mat4 \<Rightarrow> mat4" where
  "transpose4 (Mat4 (Vec4 a0 a1 a2 a3) (Vec4 b0 b1 b2 b3) (Vec4 c0 c1 c2 c3) (Vec4 d0 d1 d2 d3)) =
     Mat4 (Vec4 a0 b0 c0 d0) (Vec4 a1 b1 c1 d1) (Vec4 a2 b2 c2 d2) (Vec4 a3 b3 c3 d3)"

fun row_mat4 :: "vec4 \<Rightarrow> mat4 \<Rightarrow> vec4" where
  "row_mat4 r B = dot4v (transpose4 B) r"

text \<open>\<open>A.dot(B)\<close> for two 4x4 matrices.\<close>

fun dot4 :: "mat4 \<Rightarrow> mat4 \<Rightarrow> mat4" where
  "dot4 (Mat4 r0 r1 r2 r3) B =
     Mat4 (row_mat4 r0 B) (row_mat4 r1 B) (row_mat4 r2 B) (row_mat4 r3 B)"

definition identity4 :: mat4 where
  "identity4 = Mat4 (Vec4 1 0 0 0) (Vec4 0 1 0 0) (Vec4 0 0 1 0) (Vec4 0 0 0 1)"

text \<open>\<open>T[:3,:3]\<close>, the rotation block.\<close>

fun top_left3 :: "mat4 \<Rightarrow> mat3" where
  "top_left3 (Mat4 (Vec4 a0 a1 a2 a3) (Vec4 b0 b1 b2 b3) (Vec4 c0 c1 c2 c3) r3) =
     Mat3 (Vec3 a0 a1 a2) (Vec3 b0 b1 b2) (Vec3 c0 c1 c2)"

text \<open>\<open>T[:3,3]\<close>, the translation column.\<close>

fun column3_top :: "mat4 \<Rightarrow> vec3" where
  "column3_top (Mat4 (Vec4 a0 a1 a2 a3) (Vec4 b0 b1 b2 b3) (Vec4 c0 c1 c2 c3) r3) =
     Vec3 a3 b3 c3"

text \<open>\<open>T[3,:]\<close>, the last row.\<close>

fun row3 :: "mat4 \<Rightarrow> vec4" where
  "row3 (Mat4 r0 r1 r2 r3) = r3"

text \<open>The assignment \<open>T[:,3] = c\<close>: the last column is overwritten, all four rows of it.\<close>

fun set_column3 :: "mat4 \<Rightarrow> vec4 \<Rightarrow> mat4" where
  "set_column3 (Mat4 (Vec4 a0 a1 a2 a3) (Vec4 b0 b1 b2 b3) (Vec4 c0 c1 c2 c3) (Vec4 d0 d1 d2 d3))
       (Vec4 x y z w) =
     Mat4 (Vec4 a0 a1 a2 x) (Vec4 b0 b1 b2 y) (Vec4 c0 c1 c2 z) (Vec4 d0 d1 d2 w)"

text \<open>\<open>position + [1]\<close>: the list of three coordinates with 1 appended.\<close>

fun append_one :: "vec3 \<Rightarrow> vec4" where
  "append_one (Vec3 x y z) = Vec4 x y z 1"

subsection \<open>The library routine \<open>tf.transformations.quaternion_matrix\<close>\<close>

text \<open>
  The module imports \<open>tf.transformations\<close> (ROS) and calls its \<open>quaternion_matrix\<close> on the
  quaternion \<open>[x, y, z, w]\<close>. The routine is not code of the repository; it is written out
  here as the library has it:
  \<^verbatim>\<open>
  _EPS = numpy.finfo(float).eps * 4.0
  def quaternion_matrix(quaternion):
      q = numpy.array(quaternion[:4], dtype=numpy.float64, copy=True)
      nq = numpy.dot(q, q)
      if nq < _EPS:
          return numpy.identity(4)
      q *= math.sqrt(2.0 / nq)
      q = numpy.outer(q, q)
      return numpy.array((
          (1.0-q[1, 1]-q[2, 2],     q[0, 1]-q[2, 3],     q[0, 2]+q[1, 3], 0.0),
          (    q[0, 1]+q[2, 3], 1.0-q[0, 0]-q[2, 2],     q[1, 2]-q[0, 3], 0.0),
          (    q[0, 2]-q[1, 3],     q[1, 2]+q[0, 3], 1.0-q[0, 0]-q[1, 1], 0.0),
          (                0.0,                 0.0,                 0.0, 1.0)
          ), dtype=numpy.float64)\<close>
  The machine epsilon of float64 is \<open>2\<^sup>-\<^sup>5\<^sup>2\<close>.
\<close>

definition EPS :: real where
  "EPS = 4 / 2 ^ 52"

fun quaternion_matrix :: "vec4 \<Rightarrow> mat4" where
  "quaternion_matrix (Vec4 x y z w) =
     (let nq = x * x + y * y + z * z + w * w
      in if nq < EPS then identity4
         else
           let s = sqrt (2 / nq);
               q0 = x * s; q1 = y * s; q2 = z * s; q3 = w * s
           in Mat4 (Vec4 (1 - q1 * q1 - q2 * q2) (q0 * q1 - q2 * q3) (q0 * q2 + q1 * q3) 0)
                   (Vec4 (q0 * q1 + q2 * q3) (1 - q0 * q0 - q2 * q2) (q1 * q2 - q0 * q3) 0)
                   (Vec4 (q0 * q2 - q1 * q3) (q1 * q2 + q0 * q3) (1 - q0 * q0 - q1 * q1) 0)
                   (Vec4 0 0 0 1))"

subsection \<open>The constants of the package\<close>

text \<open>
  \<open>from tesse_ros_bridge import enu_T_unity, brh_T_blh, blh_T_brh, gravity_enu\<close>: the four
  constants are defined in the package's \<open>__init__\<close>, which is not among the sources at hand.
  They are parameters of the functions that read them.
\<close>

record frame_constants =
  enu_T_unity :: mat4
  brh_T_blh :: mat4
  blh_T_brh :: mat4
  gravity_enu :: vec3

section \<open>Frame conversion: \<open>convert_coordinate_frame\<close>\<close>

text \<open>The dictionary that \<open>parse_metadata\<close> returns.\<close>

record metadata =
  position :: vec3
  quaternion :: vec4
  velocity :: vec3
  ang_vel :: vec3
  acceleration :: vec3
  ang_accel :: vec3
  time :: real
  collision_status :: bool

text \<open>
  \<^verbatim>\<open>
  unity_T_blh = tf.transformations.quaternion_matrix(metadata['quaternion'])
  unity_T_blh[:,3] = np.array(metadata['position'] + [1])
  enu_T_blh = enu_T_unity.dot(unity_T_blh)
  enu_T_brh = enu_T_blh.dot(blh_T_brh)
  return enu_T_brh\<close>
\<close>

definition unity_T_blh :: "metadata \<Rightarrow> mat4" where
  "unity_T_blh m =
     set_column3 (quaternion_matrix (metadata.quaternion m)) (append_one (metadata.position m))"

definition convert_coordinate_frame :: "frame_constants \<Rightarrow> metadata \<Rightarrow> mat4" where
  "convert_coordinate_frame c m =
     (let enu_T_blh = dot4 (enu_T_unity c) (unity_T_blh m);
          enu_T_brh = dot4 enu_T_blh (blh_T_brh c)
      in enu_T_brh)"

text \<open>\<open>get_translation_part\<close> and \<open>get_rotation_mat\<close> (the copy it makes changes nothing).\<close>

definition get_translation_part :: "mat4 \<Rightarrow> vec3" where
  "get_translation_part transform = column3_top transform"


section \<open>The IMU message: \<open>metadata_to_imu\<close>\<close>

text \<open>The dictionary that \<open>process_metadata\<close> returns.\<close>

record processed_metadata =
  position :: vec3
  quaternion :: vec4
  velocity :: vec3
  ang_vel :: vec3
  acceleration :: vec3
  time :: real
  collision_status :: bool
  transform :: mat4

text \<open>A \<open>rospy.Time\<close>: seconds and nanoseconds.\<close>

type_synonym rospy_time = "nat \<times> nat"

text \<open>The fields of \<open>sensor_msgs.msg.Imu\<close> that the function assigns.\<close>

record imu_msg =
  stamp :: rospy_time
  frame_id :: string
  angular_velocity :: vec3
  linear_acceleration :: vec3


section \<open>Camera calibration: \<open>make_camera_info_msg\<close> and \<open>generate_camera_info\<close>\<close>

text \<open>The dictionary that \<open>parse_cam_data\<close> returns (its key \<open>'id'\<close> is the field \<open>cam_id\<close>).\<close>

record cam_parameters =
  width :: int
  height :: int
  fov :: real

record cam_draw_distance =
  far :: real
  near :: real

record cam_data =
  name :: string
  cam_id :: int
  parameters :: cam_parameters
  position :: vec3
  quaternion :: vec4
  draw_distance :: cam_draw_distance

text \<open>
  The fields of \<open>sensor_msgs.msg.CameraInfo\<close> that \<open>make_camera_info_msg\<close> assigns. The
  matrices are flat lists in row-major order, as the message type has them; \<open>'a\<close> is the
  type of their entries.
\<close>

record 'a camera_info =
  frame_id :: string
  width :: int
  height :: int
  K :: "'a list"
  R :: "'a list"
  distortion_model :: string
  D :: "'a list"
  P :: "'a list"

definition make_camera_info_msg ::
  "string \<Rightarrow> int \<Rightarrow> int \<Rightarrow> 'a \<Rightarrow> 'a \<Rightarrow> 'a \<Rightarrow> 'a \<Rightarrow> 'a \<Rightarrow> 'a \<Rightarrow> ('a::{zero,one}) camera_info" where
  "make_camera_info_msg fid w h fx fy cx cy Tx Ty =
     \<lparr> frame_id = fid,
       width = w,
       height = h,
       K = [fx, 0, cx,
            0, fy, cy,
            0, 0, 1],
       R = [1, 0, 0,
            0, 1, 0,
            0, 0, 1],
       distortion_model = ''plumb_bob'',
       D = [0, 0, 0, 0],
       P = [fx, 0, cx, Tx,
            0, fy, cy, Ty,
            0, 0, 1, 0] \<rparr>"

subsection \<open>The numbers of \<open>generate_camera_info\<close>\<close>

text \<open>
  The values the function handles are Python integers, Python floats (here always finite:
  a real number) and numpy float64 scalars, of a type \<open>'f\<close> that is left open. The literals
  \<open>0\<close> and \<open>1\<close> of the message lists are the integers.
\<close>

datatype 'f pyval = PyInt int | PyFloat real | NpFloat 'f

instantiation pyval :: (type) "{zero,one}"
begin

definition zero_pyval :: "'a pyval" where
  "zero_pyval = PyInt 0"

definition one_pyval :: "'a pyval" where
  "one_pyval = PyInt 1"

instance ..

end

text \<open>
  The float64 operations of lines 230 to 254, as the machine performs them: the conversion
  of an integer operand by numpy (\<open>from_int\<close>) and by Python (\<open>py_from_int\<close>), where \<open>None\<close>
  stands for the \<open>OverflowError\<close> of an integer too large, the float64 of a Python float, \<open>*\<close>, \<open>/\<close>, \<open>-\<close>, unary minus, \<open>np.abs\<close>, \<open>np.tan\<close>,
  \<open>np.arctan\<close>, \<open>np.deg2rad\<close>, \<open>np.rad2deg\<close> and the comparison \<open>==\<close>.
\<close>

record 'f float64 =
  from_int :: "int \<Rightarrow> 'f option"
  py_from_int :: "int \<Rightarrow> 'f option"
  from_float :: "real \<Rightarrow> 'f"
  f_mul :: "'f \<Rightarrow> 'f \<Rightarrow> 'f"
  f_div :: "'f \<Rightarrow> 'f \<Rightarrow> 'f"
  f_sub :: "'f \<Rightarrow> 'f \<Rightarrow> 'f"
  f_neg :: "'f \<Rightarrow> 'f"
  f_abs :: "'f \<Rightarrow> 'f"
  f_tan :: "'f \<Rightarrow> 'f"
  f_arctan :: "'f \<Rightarrow> 'f"
  f_deg2rad :: "'f \<Rightarrow> 'f"
  f_rad2deg :: "'f \<Rightarrow> 'f"
  f_eq :: "'f \<Rightarrow> 'f \<Rightarrow> bool"

text \<open>The same operations carried out exactly, on the reals.\<close>

definition exact_float64 :: "real float64" where
  "exact_float64 =
     \<lparr> from_int = (\<lambda>n. Some (real_of_int n)), py_from_int = (\<lambda>n. Some (real_of_int n)),
       from_float = (\<lambda>x. x),
       f_mul = (\<lambda>x y. x * y), f_div = (\<lambda>x y. x / y), f_sub = (\<lambda>x y. x - y),
       f_neg = (\<lambda>x. - x), f_abs = (\<lambda>x. \<bar>x\<bar>), f_tan = tan, f_arctan = arctan,
       f_deg2rad = (\<lambda>x. x * (pi / 180)), f_rad2deg = (\<lambda>x. x * (180 / pi)),
       f_eq = (\<lambda>x y. x = y) \<rparr>"

text \<open>
  \<open>n / 2\<close> for a positive Python integer: the quotient rounded to the nearest float (53
  significant bits, ties to the even one), and \<open>None\<close> for the \<open>OverflowError\<close> when that is
  \<open>2\<^sup>1\<^sup>0\<^sup>2\<^sup>4\<close> or more.
  \<open>bit_length n\<close> is the number of binary digits of \<open>n\<close>.
\<close>

fun bit_length :: "nat \<Rightarrow> nat" where
  "bit_length n = (if n = 0 then 0 else Suc (bit_length (n div 2)))"

declare bit_length.simps [simp del]

definition round_half_even :: "int \<Rightarrow> nat \<Rightarrow> int" where
  "round_half_even n k =
     (let q = n div 2 ^ k; r = n mod 2 ^ k
      in if 2 ^ k < 2 * r \<or> (2 * r = 2 ^ k \<and> odd q) then q + 1 else q)"

definition py_half :: "int \<Rightarrow> real option" where
  "py_half n =
     (let b = bit_length (nat n);
          x = (if b \<le> 53 then real_of_int n / 2
               else real_of_int (round_half_even n (b - 53)) * 2 ^ (b - 53) / 2)
      in if 2 ^ 1024 \<le> x then None else Some x)"

subsection \<open>\<open>generate_camera_info\<close>\<close>

text \<open>
  The function prints as it goes; the model returns what was printed, one pair for each
  \<open>print(label, value)\<close>, beside the outcome.
  \<^verbatim>\<open>
  assert(width_left == width_right)
  assert(height_left == height_right)
  assert(fov_vertical_left == fov_vertical_right)
  assert(height_left > 0)
  assert(width_left > 0)
  fov_horizontal_left = np.rad2deg(2.0 * np.arctan(np.tan(np.deg2rad(fov_vertical_left) / 2.0) * width_left / height_left))
  fx = (width_left  / 2.0) / np.tan(np.deg2rad(fov_horizontal_left) / 2.0)
  fy = (height_left / 2.0) / np.tan(np.deg2rad(fov_vertical_left)   / 2.0)
  print("FX:", fx)
  print("FY:", fy)
  assert(fx == fy)
  cx = width_left  / 2
  cy = height_left / 2
  assert(cx == width_left  // 2)
  assert(cy == height_left // 2)
  print("CX:", cx)
  print("CY:", cy)
  baseline = np.abs(left_cam_data['position'][0] - right_cam_data['position'][0])
  print("Baseline: ", baseline)
  Tx = 0
  Ty = 0
  Tx_right = -fx * baseline
  cam_info_msg_left = make_camera_info_msg("left_cam", width_left, height_left, fx, fy, cx, cy, Tx, Ty)
  cam_info_msg_right = make_camera_info_msg("right_cam", width_left, height_left, fx, fy, cx, cy, Tx_right, Ty)
  return (cam_info_msg_left, cam_info_msg_right)\<close>
  The integer operands are converted in the order of the lines: \<open>* width_left\<close> and
  \<open>/ height_left\<close> by numpy, then \<open>width_left / 2.0\<close> and \<open>height_left / 2.0\<close> by Python,
  all before the first \<open>print\<close>. The comparison of the float \<open>cx\<close> with the integer
  \<open>width_left // 2\<close> is exact.
\<close>

type_synonym 'f printed = "string \<times> 'f pyval"

text \<open>Lines 230 to 259, which run once the five assertions have passed.\<close>

definition generate_camera_info_body ::
  "'f float64 \<Rightarrow> int \<Rightarrow> int \<Rightarrow> real \<Rightarrow> cam_data \<Rightarrow> cam_data
     \<Rightarrow> 'f printed list \<times> (failure + 'f pyval camera_info \<times> 'f pyval camera_info)" where
  "generate_camera_info_body fl width_left height_left fov_vertical_left left_cam_data right_cam_data =
     (let two = from_float fl 2 in
      case from_int fl width_left of None \<Rightarrow> ([], Inl OverflowError) | Some w \<Rightarrow>
      case from_int fl height_left of None \<Rightarrow> ([], Inl OverflowError) | Some h \<Rightarrow>
      case py_from_int fl width_left of None \<Rightarrow> ([], Inl OverflowError) | Some w' \<Rightarrow>
      case py_from_int fl height_left of None \<Rightarrow> ([], Inl OverflowError) | Some h' \<Rightarrow>
      let fov_horizontal_left =
            f_rad2deg fl (f_mul fl two (f_arctan fl
              (f_div fl
                 (f_mul fl
                    (f_tan fl (f_div fl (f_deg2rad fl (from_float fl fov_vertical_left)) two))
                    w)
                 h)));
          fx = f_div fl (f_div fl w' two)
                 (f_tan fl (f_div fl (f_deg2rad fl fov_horizontal_left) two));
          fy = f_div fl (f_div fl h' two)
                 (f_tan fl (f_div fl (f_deg2rad fl (from_float fl fov_vertical_left)) two));
          out_f = [(''FX:'', NpFloat fx), (''FY:'', NpFloat fy)]
      in
      if \<not> f_eq fl fx fy then (out_f, Inl (AssertionError ''fx == fy''))
      else
        case py_half width_left of None \<Rightarrow> (out_f, Inl OverflowError) | Some cx \<Rightarrow>
        case py_half height_left of None \<Rightarrow> (out_f, Inl OverflowError) | Some cy \<Rightarrow>
        if \<not> cx = real_of_int (width_left div 2) then
          (out_f, Inl (AssertionError ''cx == width_left // 2''))
        else if \<not> cy = real_of_int (height_left div 2) then
          (out_f, Inl (AssertionError ''cy == height_left // 2''))
        else
          let out_c = out_f @ [(''CX:'', PyFloat cx), (''CY:'', PyFloat cy)];
              baseline = f_abs fl (f_sub fl (from_float fl (vx (cam_data.position left_cam_data)))
                                            (from_float fl (vx (cam_data.position right_cam_data))));
              out_b = out_c @ [(''Baseline: '', NpFloat baseline)];
              Tx = PyInt 0;
              Ty = PyInt 0;
              Tx_right = NpFloat (f_mul fl (f_neg fl fx) baseline);
              cam_info_msg_left =
                make_camera_info_msg ''left_cam'' width_left height_left
                  (NpFloat fx) (NpFloat fy) (PyFloat cx) (PyFloat cy) Tx Ty;
              cam_info_msg_right =
                make_camera_info_msg ''right_cam'' width_left height_left
                  (NpFloat fx) (NpFloat fy) (PyFloat cx) (PyFloat cy) Tx_right Ty
          in (out_b, Inr (cam_info_msg_left, cam_info_msg_right)))"

text \<open>The whole function: lines 203 to 217, then the rest.\<close>

definition generate_camera_info ::
  "'f float64 \<Rightarrow> cam_data \<Rightarrow> cam_data
     \<Rightarrow> 'f printed list \<times> (failure + 'f pyval camera_info \<times> 'f pyval camera_info)" where
  "generate_camera_info fl left_cam_data right_cam_data =
     (let width_left = cam_parameters.width (parameters left_cam_data);
          height_left = cam_parameters.height (parameters left_cam_data);
          fov_vertical_left = fov (parameters left_cam_data);
          width_right = cam_parameters.width (parameters right_cam_data);
          height_right = cam_parameters.height (parameters right_cam_data);
          fov_vertical_right = fov (parameters right_cam_data)
      in
      if \<not> width_left = width_right then ([], Inl (AssertionError ''width_left == width_right''))
      else if \<not> height_left = height_right then
        ([], Inl (AssertionError ''height_left == height_right''))
      else if \<not> fov_vertical_left = fov_vertical_right then
        ([], Inl (AssertionError ''fov_vertical_left == fov_vertical_right''))
      else if \<not> height_left > 0 then ([], Inl (AssertionError ''height_left > 0''))
      else if \<not> width_left > 0 then ([], Inl (AssertionError ''width_left > 0''))
      else generate_camera_info_body fl width_left height_left fov_vertical_left
             left_cam_data right_cam_data)"

section \<open>Notions used to state the properties\<close>

text \<open>The five checks that open \<open>generate_camera_info\<close>, by their asserted expressions.\<close>

definition precondition_checks :: "string list" where
  "precondition_checks =
     [''width_left == width_right'', ''height_left == height_right'',
      ''fov_vertical_left == fov_vertical_right'', ''height_left > 0'', ''width_left > 0'']"

text \<open>
  The library's matrix in closed form, without the square root: the rotation matrix of
  \<open>(x, y, z, w)\<close> with the factor \<open>t = 2 / |q|\<^sup>2\<close> where the library computes one, and the
  identity below its threshold.
\<close>

fun rotation_scaled :: "real \<Rightarrow> vec4 \<Rightarrow> mat3" where
  "rotation_scaled t (Vec4 x y z w) =
      Mat3 (Vec3 (1 - t * (y * y + z * z)) (t * (x * y - z * w)) (t * (x * z + y * w)))
           (Vec3 (t * (x * y + z * w)) (1 - t * (x * x + z * z)) (t * (y * z - x * w)))
           (Vec3 (t * (x * z - y * w)) (t * (y * z + x * w)) (1 - t * (x * x + y * y)))"

fun norm2 :: "vec4 \<Rightarrow> real" where
  "norm2 (Vec4 x y z w) = x * x + y * y + z * z + w * w"

definition rotation_of_quaternion :: "vec4 \<Rightarrow> mat3" where
  "rotation_of_quaternion q =
     (if norm2 q < EPS then identity3 else rotation_scaled (2 / norm2 q) q)"

text \<open>
  A 3x3 block is orthogonal when its columns are orthonormal (\<open>R\<^sup>T \<cdot> R\<close> is the identity),
  which leaves the determinant +1 or -1, and a proper rotation (\<open>orthonormal3\<close>) when the
  determinant is +1 as well; a 4x4 matrix is a homogeneous transform when its last row is
  \<open>[0, 0, 0, 1]\<close>.
\<close>

definition orthonormal3 :: "mat3 \<Rightarrow> bool" where
  "orthonormal3 M = (dot3 (transpose3 M) M = identity3 \<and> det3 M = 1)"







section \<open>Example inputs\<close>

text \<open>
  A stereo pair of 640 by 480 pixels with a vertical field of view of 60 degrees, the right
  camera 0.1 to the left of the origin on the x axis; a right camera of another width; and a
  pair of odd width.
\<close>

definition stereo_left :: cam_data where
  "stereo_left =
     \<lparr> name = ''left_cam'', cam_id = 0,
       parameters = \<lparr> cam_parameters.width = 640, cam_parameters.height = 480, fov = 60 \<rparr>,
       position = Vec3 0 0 0, quaternion = Vec4 0 0 0 1,
       draw_distance = \<lparr> far = 50, near = 1 / 20 \<rparr> \<rparr>"

definition stereo_right :: cam_data where
  "stereo_right =
     \<lparr> name = ''right_cam'', cam_id = 1,
       parameters = \<lparr> cam_parameters.width = 640, cam_parameters.height = 480, fov = 60 \<rparr>,
       position = Vec3 (- (1 / 10)) 0 0, quaternion = Vec4 0 0 0 1,
       draw_distance = \<lparr> far = 50, near = 1 / 20 \<rparr> \<rparr>"

definition narrow_right :: cam_data where
  "narrow_right =
     \<lparr> name = ''right_cam'', cam_id = 1,
       parameters = \<lparr> cam_parameters.width = 320, cam_parameters.height = 480, fov = 60 \<rparr>,
       position = Vec3 (- (1 / 10)) 0 0, quaternion = Vec4 0 0 0 1,
       draw_distance = \<lparr> far = 50, near = 1 / 20 \<rparr> \<rparr>"

definition odd_left :: cam_data where
  "odd_left =
     \<lparr> name = ''left_cam'', cam_id = 0,
       parameters = \<lparr> cam_parameters.width = 643, cam_parameters.height = 480, fov = 60 \<rparr>,
       position = Vec3 0 0 0, quaternion = Vec4 0 0 0 1,
       draw_distance = \<lparr> far = 50, near = 1 / 20 \<rparr> \<rparr>"

definition odd_right :: cam_data where
  "odd_right =
     \<lparr> name = ''right_cam'', cam_id = 1,
       parameters = \<lparr> cam_parameters.width = 643, cam_parameters.height = 480, fov = 60 \<rparr>,
       position = Vec3 (- (1 / 10)) 0 0, quaternion = Vec4 0 0 0 1,
       draw_distance = \<lparr> far = 50, near = 1 / 20 \<rparr> \<rparr>"













section \<open>Matrix algebra\<close>

lemma mat3_exhaust:
  obtains a b c d e f g h i where "M = Mat3 (Vec3 a b c) (Vec3 d e f) (Vec3 g h i)"
proof (cases M)
  case (Mat3 r0 r1 r2)
  then show ?thesis using that by (cases r0; cases r1; cases r2) simp
qed

lemma mat4_exhaust:
  obtains a0 a1 a2 a3 b0 b1 b2 b3 c0 c1 c2 c3 d0 d1 d2 d3 where
    "M = Mat4 (Vec4 a0 a1 a2 a3) (Vec4 b0 b1 b2 b3) (Vec4 c0 c1 c2 c3) (Vec4 d0 d1 d2 d3)"
proof (cases M)
  case (Mat4 r0 r1 r2 r3)
  then show ?thesis using that by (cases r0; cases r1; cases r2; cases r3) simp
qed

lemma transpose3_dot3: "transpose3 (dot3 A B) = dot3 (transpose3 B) (transpose3 A)"
  by (cases A rule: mat3_exhaust; cases B rule: mat3_exhaust) (simp add: algebra_simps)

lemma dot3_assoc: "dot3 (dot3 A B) C = dot3 A (dot3 B C)"
  by (cases A rule: mat3_exhaust; cases B rule: mat3_exhaust; cases C rule: mat3_exhaust)
     (simp add: algebra_simps)

lemma dot3_identity_left: "dot3 identity3 A = A"
  by (cases A rule: mat3_exhaust) (simp add: identity3_def)

lemma det3_dot3: "det3 (dot3 A B) = det3 A * det3 B"
  by (cases A rule: mat3_exhaust; cases B rule: mat3_exhaust) (simp add: algebra_simps)


text \<open>
  The rotation block of a product is the product of the rotation blocks as soon as the
  right factor has zeros under its rotation block.
\<close>

lemma top_left3_dot4:
  assumes "row3 B = Vec4 0 0 0 w"
  shows "top_left3 (dot4 A B) = dot3 (top_left3 A) (top_left3 B)"
  using assms by (cases A rule: mat4_exhaust; cases B rule: mat4_exhaust) simp

lemma row3_dot4:
  assumes "row3 A = Vec4 0 0 0 1" and "row3 B = Vec4 0 0 0 1"
  shows "row3 (dot4 A B) = Vec4 0 0 0 1"
  using assms by (cases A rule: mat4_exhaust; cases B rule: mat4_exhaust) simp

lemma orthogonal_dot3:
  assumes "dot3 (transpose3 A) A = identity3" and "dot3 (transpose3 B) B = identity3"
  shows "dot3 (transpose3 (dot3 A B)) (dot3 A B) = identity3"
proof -
  have "dot3 (transpose3 (dot3 A B)) (dot3 A B)
        = dot3 (transpose3 B) (dot3 (dot3 (transpose3 A) A) B)"
    by (simp only: transpose3_dot3 dot3_assoc)
  also have "\<dots> = identity3" using assms by (simp only: dot3_identity_left)
  finally show ?thesis .
qed

lemma orthonormal3_dot3:
  assumes "orthonormal3 A" and "orthonormal3 B"
  shows "orthonormal3 (dot3 A B)"
  using assms by (simp add: orthonormal3_def orthogonal_dot3 det3_dot3)


section \<open>The quaternion's matrix\<close>

lemma EPS_pos: "0 < EPS"
  by (simp add: EPS_def)

lemma scaled_product:
  fixes s t a b :: real
  assumes "s * s = t"
  shows "(a * s) * (b * s) = t * (a * b)"
proof -
  have "(a * s) * (b * s) = (s * s) * (a * b)" by (simp add: algebra_simps)
  then show ?thesis using assms by simp
qed

lemma scaled_entries:
  fixes s t x y z w :: real
  assumes "s * s = t"
  shows "Mat3 (Vec3 (1 - (y * s) * (y * s) - (z * s) * (z * s))
                    ((x * s) * (y * s) - (z * s) * (w * s))
                    ((x * s) * (z * s) + (y * s) * (w * s)))
              (Vec3 ((x * s) * (y * s) + (z * s) * (w * s))
                    (1 - (x * s) * (x * s) - (z * s) * (z * s))
                    ((y * s) * (z * s) - (x * s) * (w * s)))
              (Vec3 ((x * s) * (z * s) - (y * s) * (w * s))
                    ((y * s) * (z * s) + (x * s) * (w * s))
                    (1 - (x * s) * (x * s) - (y * s) * (y * s)))
         = rotation_scaled t (Vec4 x y z w)"
  by (simp only: scaled_product [OF assms] rotation_scaled.simps) (simp add: algebra_simps)

text \<open>The library routine computes the textbook matrix.\<close>

lemma quaternion_matrix_rotation:
  "top_left3 (quaternion_matrix q) = rotation_of_quaternion q"
proof (cases q)
  case (Vec4 x y z w)
  define nq where "nq = x * x + y * y + z * z + w * w"
  show ?thesis
  proof (cases "nq < EPS")
    case True
    then show ?thesis using Vec4
      by (simp add: rotation_of_quaternion_def identity4_def identity3_def nq_def)
  next
    case False
    then have "0 < nq" using EPS_pos by linarith
    then have ss: "sqrt (2 / nq) * sqrt (2 / nq) = 2 / nq" by simp
    have "top_left3 (quaternion_matrix q) = rotation_scaled (2 / nq) (Vec4 x y z w)"
      using False unfolding Vec4 quaternion_matrix.simps Let_def nq_def [symmetric]
      by (simp only: if_False top_left3.simps scaled_entries [OF ss])
    then show ?thesis using False Vec4 by (simp add: rotation_of_quaternion_def nq_def)
  qed
qed

lemma quaternion_matrix_row3: "row3 (quaternion_matrix q) = Vec4 0 0 0 1"
  by (cases q) (simp add: Let_def identity4_def)

text \<open>
  With \<open>e = t (t |q|\<^sup>2 - 2)\<close>, the Gram matrix and the determinant of the scaled matrix differ
  from those of a rotation by multiples of \<open>e\<close>, and \<open>e = 0\<close> for \<open>t = 2 / |q|\<^sup>2\<close>.
\<close>

lemma rotation_scaled_gram:
  fixes t x y z w :: real
  defines "e \<equiv> t * (t * (x * x + y * y + z * z + w * w) - 2)"
  shows "dot3 (transpose3 (rotation_scaled t (Vec4 x y z w))) (rotation_scaled t (Vec4 x y z w)) =
         Mat3 (Vec3 (1 + (y * y + z * z) * e) (- (x * y) * e) (- (x * z) * e))
              (Vec3 (- (x * y) * e) (1 + (x * x + z * z) * e) (- (y * z) * e))
              (Vec3 (- (x * z) * e) (- (y * z) * e) (1 + (x * x + y * y) * e))"
  unfolding e_def by (simp add: algebra_simps)

lemma rotation_scaled_det:
  fixes t x y z w :: real
  shows "det3 (rotation_scaled t (Vec4 x y z w)) =
         1 + (x * x + y * y + z * z) * (t * (t * (x * x + y * y + z * z + w * w) - 2))"
  by (simp add: algebra_simps)

lemma rotation_of_quaternion_orthonormal: "orthonormal3 (rotation_of_quaternion q)"
proof (cases q)
  case (Vec4 x y z w)
  define nq where "nq = x * x + y * y + z * z + w * w"
  show ?thesis
  proof (cases "nq < EPS")
    case True
    then show ?thesis using Vec4
      by (simp add: rotation_of_quaternion_def orthonormal3_def identity3_def nq_def)
  next
    case False
    then have "0 < nq" using EPS_pos by linarith
    then have e: "2 / nq * nq - 2 = 0" by simp
    have "dot3 (transpose3 (rotation_scaled (2 / nq) q)) (rotation_scaled (2 / nq) q) = identity3"
      unfolding Vec4 rotation_scaled_gram nq_def [symmetric] e by (simp add: identity3_def)
    moreover have "det3 (rotation_scaled (2 / nq) q) = 1"
      unfolding Vec4 rotation_scaled_det nq_def [symmetric] e by simp
    ultimately show ?thesis using False Vec4
      by (simp add: rotation_of_quaternion_def orthonormal3_def nq_def)
  qed
qed

section \<open>Frame conversion, block by block\<close>

lemma unity_T_blh_row3: "row3 (unity_T_blh m) = Vec4 0 0 0 1"
proof -
  obtain x y z where p: "metadata.position m = Vec3 x y z" by (cases "metadata.position m")
  have "row3 (quaternion_matrix (metadata.quaternion m)) = Vec4 0 0 0 1"
    by (rule quaternion_matrix_row3)
  then show ?thesis
    unfolding unity_T_blh_def p
    by (cases "quaternion_matrix (metadata.quaternion m)" rule: mat4_exhaust) simp
qed

lemma unity_T_blh_top_left3:
  "top_left3 (unity_T_blh m) = top_left3 (quaternion_matrix (metadata.quaternion m))"
proof -
  obtain x y z where p: "metadata.position m = Vec3 x y z" by (cases "metadata.position m")
  show ?thesis
    unfolding unity_T_blh_def p
    by (cases "quaternion_matrix (metadata.quaternion m)" rule: mat4_exhaust) simp
qed


text \<open>
  The rotation block of the result is the product of the three rotation blocks, and its
  determinant the product of the two constants' determinants.
\<close>

lemma convert_coordinate_frame_rotation:
  assumes "row3 (blh_T_brh c) = Vec4 0 0 0 w"
  shows "top_left3 (convert_coordinate_frame c m) =
           dot3 (dot3 (top_left3 (enu_T_unity c)) (rotation_of_quaternion (metadata.quaternion m)))
                (top_left3 (blh_T_brh c))"
  by (simp add: convert_coordinate_frame_def top_left3_dot4 [OF assms]
        top_left3_dot4 [OF unity_T_blh_row3] unity_T_blh_top_left3 quaternion_matrix_rotation)

lemma convert_coordinate_frame_det:
  assumes "row3 (blh_T_brh c) = Vec4 0 0 0 w"
  shows "det3 (top_left3 (convert_coordinate_frame c m)) =
           det3 (top_left3 (enu_T_unity c)) * det3 (top_left3 (blh_T_brh c))"
  using rotation_of_quaternion_orthonormal [of "metadata.quaternion m"]
  by (simp add: convert_coordinate_frame_rotation [OF assms] det3_dot3 orthonormal3_def)

text \<open>
  Orthogonal constants whose determinants multiply to +1 (two proper rotations, or two
  changes of handedness) give a proper rotation.
\<close>

lemma convert_coordinate_frame_proper:
  assumes "dot3 (transpose3 (top_left3 (enu_T_unity c))) (top_left3 (enu_T_unity c)) = identity3"
    and "dot3 (transpose3 (top_left3 (blh_T_brh c))) (top_left3 (blh_T_brh c)) = identity3"
    and "det3 (top_left3 (enu_T_unity c)) * det3 (top_left3 (blh_T_brh c)) = 1"
    and "row3 (blh_T_brh c) = Vec4 0 0 0 w"
  shows "orthonormal3 (top_left3 (convert_coordinate_frame c m))"
proof -
  have q: "dot3 (transpose3 (rotation_of_quaternion (metadata.quaternion m)))
             (rotation_of_quaternion (metadata.quaternion m)) = identity3"
    using rotation_of_quaternion_orthonormal [of "metadata.quaternion m"]
    by (simp add: orthonormal3_def)
  have "dot3 (transpose3 (top_left3 (convert_coordinate_frame c m)))
          (top_left3 (convert_coordinate_frame c m)) = identity3"
    unfolding convert_coordinate_frame_rotation [OF assms(4)]
    by (intro orthogonal_dot3 assms(1,2) q)
  then show ?thesis
    using assms(3) by (simp add: orthonormal3_def convert_coordinate_frame_det [OF assms(4)])
qed

section \<open>Camera calibration, step by step\<close>

lemma generate_camera_info_passes:
  assumes "cam_parameters.width (parameters l) = cam_parameters.width (parameters r)"
    and "cam_parameters.height (parameters l) = cam_parameters.height (parameters r)"
    and "fov (parameters l) = fov (parameters r)"
    and "0 < cam_parameters.width (parameters l)"
    and "0 < cam_parameters.height (parameters l)"
  shows "generate_camera_info fl l r =
           generate_camera_info_body fl (cam_parameters.width (parameters l))
             (cam_parameters.height (parameters l)) (fov (parameters l)) l r"
  using assms by (simp add: generate_camera_info_def)

lemma generate_camera_info_body_failures:
  "snd (generate_camera_info_body fl w h v l r) = Inl e \<Longrightarrow>
     e = OverflowError \<or> e = AssertionError ''fx == fy''
     \<or> e = AssertionError ''cx == width_left // 2'' \<or> e = AssertionError ''cy == height_left // 2''"
  unfolding generate_camera_info_body_def Let_def
  by (simp split: option.splits if_splits)

lemma generate_camera_info_rejects:
  assumes "cam_parameters.width (parameters l) \<noteq> cam_parameters.width (parameters r)
     \<or> cam_parameters.height (parameters l) \<noteq> cam_parameters.height (parameters r)
     \<or> fov (parameters l) \<noteq> fov (parameters r)
     \<or> cam_parameters.width (parameters l) \<le> 0
     \<or> cam_parameters.height (parameters l) \<le> 0"
  shows "\<exists>e. e \<in> set precondition_checks \<and> generate_camera_info fl l r = ([], Inl (AssertionError e))"
proof -
  let ?g = "generate_camera_info fl l r"
  consider
    (w) "cam_parameters.width (parameters l) \<noteq> cam_parameters.width (parameters r)"
  | (h) "cam_parameters.width (parameters l) = cam_parameters.width (parameters r)"
        "cam_parameters.height (parameters l) \<noteq> cam_parameters.height (parameters r)"
  | (f) "cam_parameters.width (parameters l) = cam_parameters.width (parameters r)"
        "cam_parameters.height (parameters l) = cam_parameters.height (parameters r)"
        "fov (parameters l) \<noteq> fov (parameters r)"
  | (hp) "cam_parameters.width (parameters l) = cam_parameters.width (parameters r)"
        "cam_parameters.height (parameters l) = cam_parameters.height (parameters r)"
        "fov (parameters l) = fov (parameters r)"
        "\<not> 0 < cam_parameters.height (parameters l)"
  | (wp) "cam_parameters.width (parameters l) = cam_parameters.width (parameters r)"
        "cam_parameters.height (parameters l) = cam_parameters.height (parameters r)"
        "fov (parameters l) = fov (parameters r)"
        "0 < cam_parameters.height (parameters l)"
        "\<not> 0 < cam_parameters.width (parameters l)"
    using assms by fastforce
  then show ?thesis
  proof cases
    case w
    then have "?g = ([], Inl (AssertionError ''width_left == width_right''))"
      by (simp add: generate_camera_info_def)
    then show ?thesis by (simp add: precondition_checks_def)
  next
    case h
    then have "?g = ([], Inl (AssertionError ''height_left == height_right''))"
      by (simp add: generate_camera_info_def)
    then show ?thesis by (simp add: precondition_checks_def)
  next
    case f
    then have "?g = ([], Inl (AssertionError ''fov_vertical_left == fov_vertical_right''))"
      by (simp add: generate_camera_info_def)
    then show ?thesis by (simp add: precondition_checks_def)
  next
    case hp
    then have "?g = ([], Inl (AssertionError ''height_left > 0''))"
      by (simp add: generate_camera_info_def)
    then show ?thesis by (simp add: precondition_checks_def)
  next
    case wp
    then have "?g = ([], Inl (AssertionError ''width_left > 0''))"
      by (simp add: generate_camera_info_def)
    then show ?thesis by (simp add: precondition_checks_def)
  qed
qed


lemma bit_length_le: "n < 2 ^ k \<Longrightarrow> bit_length n \<le> k"
proof (induction k arbitrary: n)
  case 0
  then show ?case by (simp add: bit_length.simps)
next
  case (Suc k)
  show ?case
  proof (cases "n = 0")
    case True
    then show ?thesis by (simp add: bit_length.simps)
  next
    case False
    have "n div 2 < 2 ^ k" using Suc.prems by simp
    then have "bit_length (n div 2) \<le> k" by (rule Suc.IH)
    then show ?thesis using False by (subst bit_length.simps) simp
  qed
qed

lemma py_half_small:
  assumes "0 < n" and "n < 2 ^ 53"
  shows "py_half n = Some (real_of_int n / 2)"
proof -
  have "nat n < 2 ^ 53" using assms by (simp add: nat_less_iff)
  then have b: "bit_length (nat n) \<le> 53" by (rule bit_length_le)
  have "real_of_int n < 2 ^ 53" using assms(2) by (metis of_int_less_iff of_int_numeral of_int_power)
  also have "\<dots> \<le> (2::real) ^ 1024" by (rule power_increasing) simp_all
  finally have "real_of_int n / 2 < 2 ^ 1024" by simp
  then show ?thesis using b by (simp add: py_half_def Let_def)
qed

lemma exact_half_angle:
  "tan (2 * arctan u * (180 / pi) * (pi / 180) / 2) = u"
  by (simp add: tan_arctan)

lemma tan_30_deg: "tan (60 * (pi / 180) / 2) = 1 / sqrt 3"
proof -
  have e: "60 * (pi / 180) / 2 = pi / 6" by simp
  show ?thesis by (simp only: e tan_30)
qed

lemma stereo_body:
  "generate_camera_info_body exact_float64 640 480 60 stereo_left stereo_right =
     ([(''FX:'', NpFloat (240 * sqrt 3)), (''FY:'', NpFloat (240 * sqrt 3)),
       (''CX:'', PyFloat 320), (''CY:'', PyFloat 240), (''Baseline: '', NpFloat (1 / 10))],
      Inr (make_camera_info_msg ''left_cam'' 640 480 (NpFloat (240 * sqrt 3)) (NpFloat (240 * sqrt 3))
             (PyFloat 320) (PyFloat 240) (PyInt 0) (PyInt 0),
           make_camera_info_msg ''right_cam'' 640 480 (NpFloat (240 * sqrt 3)) (NpFloat (240 * sqrt 3))
             (PyFloat 320) (PyFloat 240) (NpFloat (- (24 * sqrt 3))) (PyInt 0)))"
proof -
  have h: "py_half 640 = Some 320" "py_half 480 = Some 240"
    using py_half_small [of 640] py_half_small [of 480] by simp_all
  show ?thesis
    by (simp add: generate_camera_info_body_def exact_float64_def Let_def h exact_half_angle
          tan_30_deg tan_30 tan_arctan stereo_left_def stereo_right_def)
qed







lemma generate_camera_info_body_returns:
  assumes "snd (generate_camera_info_body fl W H v l r) = Inr (ml, mr)"
  shows "\<exists>w h w' h' cx cy.
      from_int fl W = Some w \<and> from_int fl H = Some h
    \<and> py_from_int fl W = Some w' \<and> py_from_int fl H = Some h'
    \<and> py_half W = Some cx \<and> py_half H = Some cy
    \<and> cx = real_of_int (W div 2) \<and> cy = real_of_int (H div 2)
    \<and> (let two = from_float fl 2;
            fov_v = from_float fl v;
            fov_h = f_rad2deg fl (f_mul fl two (f_arctan fl
                      (f_div fl (f_mul fl (f_tan fl (f_div fl (f_deg2rad fl fov_v) two)) w) h)));
            fx = f_div fl (f_div fl w' two) (f_tan fl (f_div fl (f_deg2rad fl fov_h) two));
            fy = f_div fl (f_div fl h' two) (f_tan fl (f_div fl (f_deg2rad fl fov_v) two));
            baseline = f_abs fl (f_sub fl (from_float fl (vx (cam_data.position l)))
                                          (from_float fl (vx (cam_data.position r))))
        in f_eq fl fx fy
         \<and> ml = make_camera_info_msg ''left_cam'' W H (NpFloat fx) (NpFloat fy)
                  (PyFloat cx) (PyFloat cy) (PyInt 0) (PyInt 0)
         \<and> mr = make_camera_info_msg ''right_cam'' W H (NpFloat fx) (NpFloat fy)
                  (PyFloat cx) (PyFloat cy) (NpFloat (f_mul fl (f_neg fl fx) baseline)) (PyInt 0))"
  using assms unfolding generate_camera_info_body_def Let_def
  by (simp split: option.splits if_splits)

lemma odd_body_stops:
  assumes "py_half W = Some c" and "c \<noteq> real_of_int (W div 2)"
  shows "\<exists>e. snd (generate_camera_info_body fl W H v l r) = Inl e"
  using assms unfolding generate_camera_info_body_def Let_def
  by (simp split: option.splits)


section \<open>Properties of \<open>get_acc_brh\<close>\<close>

text \<open>
  C1. For every current rotation block \<open>R_t\<close>, current body-frame velocity \<open>v_t\<close>, previous
  rotation block \<open>R_prev\<close>, previous body-frame velocity \<open>v_prev\<close> and elapsed time
  \<open>dt > 0\<close>, the acceleration estimator returns exactly
  \<open>R_t\<^sup>T \<cdot> ((R_t \<cdot> v_t - R_prev \<cdot> v_prev) / dt)\<close> as numpy evaluates it: both velocities are
  lifted into the ENU world frame by the two rotations, their difference is divided by
  \<open>dt\<close>, and the result is multiplied by the transpose of the current rotation. With exact
  operations the components are the sums of products written out below.
\<close>

theorem get_acc_brh_finite_difference:
  assumes "0 < dt"
  shows "get_acc_brh np R_t v_t v_prev R_prev dt =
           Inr (np_dot np (np_transpose np R_t)
                  (np_div np (np_sub np (np_dot np R_t v_t) (np_dot np R_prev v_prev)) dt))
         \<and> get_acc_brh exact_numpy
               (Mat3 (Vec3 a b c) (Vec3 d e f) (Vec3 g h i)) (Vec3 x y z)
               (Vec3 x' y' z') (Mat3 (Vec3 a' b' c') (Vec3 d' e' f') (Vec3 g' h' i')) dt =
             Inr (Vec3
               (a * (((a * x + b * y + c * z) - (a' * x' + b' * y' + c' * z')) / dt)
                + d * (((d * x + e * y + f * z) - (d' * x' + e' * y' + f' * z')) / dt)
                + g * (((g * x + h * y + i * z) - (g' * x' + h' * y' + i' * z')) / dt))
               (b * (((a * x + b * y + c * z) - (a' * x' + b' * y' + c' * z')) / dt)
                + e * (((d * x + e * y + f * z) - (d' * x' + e' * y' + f' * z')) / dt)
                + h * (((g * x + h * y + i * z) - (g' * x' + h' * y' + i' * z')) / dt))
               (c * (((a * x + b * y + c * z) - (a' * x' + b' * y' + c' * z')) / dt)
                + f * (((d * x + e * y + f * z) - (d' * x' + e' * y' + f' * z')) / dt)
                + i * (((g * x + h * y + i * z) - (g' * x' + h' * y' + i' * z')) / dt)))"
  using assms by (simp add: get_acc_brh_def exact_numpy_def)

theorem get_acc_brh_finite_difference_witness:
  "(0::real) < 2 \<and>
   get_acc_brh exact_numpy (Mat3 (Vec3 0 (-1) 0) (Vec3 1 0 0) (Vec3 0 0 1)) (Vec3 3 5 7)
               (Vec3 1 1 1) (Mat3 (Vec3 1 0 0) (Vec3 0 1 0) (Vec3 0 0 1)) 2
     = Inr (Vec3 1 3 3)"
proof -
  have "get_acc_brh exact_numpy (Mat3 (Vec3 0 (-1) 0) (Vec3 1 0 0) (Vec3 0 0 1)) (Vec3 3 5 7)
               (Vec3 1 1 1) (Mat3 (Vec3 1 0 0) (Vec3 0 1 0) (Vec3 0 0 1)) 2
     = Inr (Vec3 1 3 3)"
    using get_acc_brh_finite_difference
      [of 2 exact_numpy "Mat3 (Vec3 0 (-1) 0) (Vec3 1 0 0) (Vec3 0 0 1)" "Vec3 3 5 7" "Vec3 1 1 1"
          "Mat3 (Vec3 1 0 0) (Vec3 0 1 0) (Vec3 0 0 1)"]
    by (simp add: exact_numpy_def)
  then show ?thesis by simp
qed

text \<open>
  C3. For every call to the acceleration estimator with \<open>dt < 0\<close> it raises the
  invalid-argument condition (the failed assertion) and performs no computation: the outcome
  is the failure alone, whatever the rotations and velocities are, and no vector is
  produced. For \<open>dt \<ge> 0\<close> the precondition check passes: the outcome is not that failure.
\<close>

theorem get_acc_brh_precondition:
  "(dt < 0 \<longrightarrow> (\<forall>R v v' R'. get_acc_brh np R v v' R' dt = Inl (AssertionError ''dt >= 0.0'')))
   \<and> (0 \<le> dt \<longrightarrow> (\<forall>R v v' R' e. get_acc_brh np R v v' R' dt \<noteq> Inl (AssertionError e)))"
  by (simp add: get_acc_brh_def Let_def)

theorem get_acc_brh_precondition_witness:
  "((-1::real) < 0 \<and>
     get_acc_brh exact_numpy identity3 (Vec3 1 2 3) (Vec3 0 0 0) identity3 (-1)
       = Inl (AssertionError ''dt >= 0.0''))
   \<and> ((0::real) \<le> 1 \<and>
     get_acc_brh exact_numpy identity3 (Vec3 1 2 3) (Vec3 0 0 0) identity3 1 = Inr (Vec3 1 2 3))"
proof -
  have neg: "get_acc_brh exact_numpy identity3 (Vec3 1 2 3) (Vec3 0 0 0) identity3 (-1)
               = Inl (AssertionError ''dt >= 0.0'')"
    using get_acc_brh_precondition [of "-1" exact_numpy] by simp
  have "\<forall>e. get_acc_brh exact_numpy identity3 (Vec3 1 2 3) (Vec3 0 0 0) identity3 1
               \<noteq> Inl (AssertionError e)"
    using get_acc_brh_precondition [of 1 exact_numpy] by simp
  moreover have "get_acc_brh exact_numpy identity3 (Vec3 1 2 3) (Vec3 0 0 0) identity3 1
                   = Inr (Vec3 1 2 3)"
    by (simp add: get_acc_brh_def identity3_def exact_numpy_def)
  ultimately show ?thesis using neg by simp
qed

section \<open>Properties of \<open>convert_coordinate_frame\<close>\<close>






section \<open>Properties of \<open>generate_camera_info\<close> and \<open>make_camera_info_msg\<close>\<close>

text \<open>
  C4 (as amended). For every camera pair satisfying the preconditions (equal widths, heights
  and vertical fields of view; positive width and height) for which the intrinsics
  calculator returns, that is, which also passes \<open>assert(fx == fy)\<close> and the two
  principal-point assertions, the returned messages carry
  \<open>fov_h = 2 atan(tan(fov_v/2) width/height)\<close> (converted between degrees and radians for
  the trigonometric calls), \<open>fx = (width/2) / tan(fov_h/2)\<close>,
  \<open>fy = (height/2) / tan(fov_v/2)\<close>, each evaluated by the float64 operations in this
  order, \<open>baseline = |left.position.x - right.position.x|\<close> and the stereo terms
  \<open>Tx_left = 0\<close>, \<open>Tx_right = - fx baseline\<close>, \<open>Ty = 0\<close> for both cameras.
\<close>

theorem generate_camera_info_intrinsics:
  assumes "cam_parameters.width (parameters l) = cam_parameters.width (parameters r)"
    and "cam_parameters.height (parameters l) = cam_parameters.height (parameters r)"
    and "fov (parameters l) = fov (parameters r)"
    and "0 < cam_parameters.width (parameters l)"
    and "0 < cam_parameters.height (parameters l)"
    and "snd (generate_camera_info fl l r) = Inr (ml, mr)"
  shows "\<exists>w h w' h' cx cy.
      from_int fl (cam_parameters.width (parameters l)) = Some w
    \<and> from_int fl (cam_parameters.height (parameters l)) = Some h
    \<and> py_from_int fl (cam_parameters.width (parameters l)) = Some w'
    \<and> py_from_int fl (cam_parameters.height (parameters l)) = Some h'
    \<and> py_half (cam_parameters.width (parameters l)) = Some cx
    \<and> py_half (cam_parameters.height (parameters l)) = Some cy
    \<and> (let two = from_float fl 2;
            fov_v = from_float fl (fov (parameters l));
            fov_h = f_rad2deg fl (f_mul fl two (f_arctan fl
                      (f_div fl (f_mul fl (f_tan fl (f_div fl (f_deg2rad fl fov_v) two)) w) h)));
            fx = f_div fl (f_div fl w' two) (f_tan fl (f_div fl (f_deg2rad fl fov_h) two));
            fy = f_div fl (f_div fl h' two) (f_tan fl (f_div fl (f_deg2rad fl fov_v) two));
            baseline = f_abs fl (f_sub fl (from_float fl (vx (cam_data.position l)))
                                          (from_float fl (vx (cam_data.position r))));
            Tx_left = PyInt 0;
            Tx_right = NpFloat (f_mul fl (f_neg fl fx) baseline);
            Ty = PyInt 0
        in K ml = [NpFloat fx, PyInt 0, PyFloat cx,
                   PyInt 0, NpFloat fy, PyFloat cy,
                   PyInt 0, PyInt 0, PyInt 1]
         \<and> K mr = K ml
         \<and> P ml = [NpFloat fx, PyInt 0, PyFloat cx, Tx_left,
                    PyInt 0, NpFloat fy, PyFloat cy, Ty,
                    PyInt 0, PyInt 0, PyInt 1, PyInt 0]
         \<and> P mr = [NpFloat fx, PyInt 0, PyFloat cx, Tx_right,
                    PyInt 0, NpFloat fy, PyFloat cy, Ty,
                    PyInt 0, PyInt 0, PyInt 1, PyInt 0]
         \<and> last (fst (generate_camera_info fl l r)) = (''Baseline: '', NpFloat baseline))"
proof -
  have body: "generate_camera_info fl l r =
      generate_camera_info_body fl (cam_parameters.width (parameters l))
        (cam_parameters.height (parameters l)) (fov (parameters l)) l r"
    using assms(1-5) by (rule generate_camera_info_passes)
  have ret: "snd (generate_camera_info_body fl (cam_parameters.width (parameters l))
        (cam_parameters.height (parameters l)) (fov (parameters l)) l r) = Inr (ml, mr)"
    using assms(6) body by simp
  from generate_camera_info_body_returns [OF ret]
  obtain w h w' h' cx cy where c:
    "from_int fl (cam_parameters.width (parameters l)) = Some w"
    "from_int fl (cam_parameters.height (parameters l)) = Some h"
    "py_from_int fl (cam_parameters.width (parameters l)) = Some w'"
    "py_from_int fl (cam_parameters.height (parameters l)) = Some h'"
    "py_half (cam_parameters.width (parameters l)) = Some cx"
    "py_half (cam_parameters.height (parameters l)) = Some cy"
    "cx = real_of_int (cam_parameters.width (parameters l) div 2)"
    "cy = real_of_int (cam_parameters.height (parameters l) div 2)"
    and rest: "(let two = from_float fl 2;
            fov_v = from_float fl (fov (parameters l));
            fov_h = f_rad2deg fl (f_mul fl two (f_arctan fl
                      (f_div fl (f_mul fl (f_tan fl (f_div fl (f_deg2rad fl fov_v) two)) w) h)));
            fx = f_div fl (f_div fl w' two) (f_tan fl (f_div fl (f_deg2rad fl fov_h) two));
            fy = f_div fl (f_div fl h' two) (f_tan fl (f_div fl (f_deg2rad fl fov_v) two));
            baseline = f_abs fl (f_sub fl (from_float fl (vx (cam_data.position l)))
                                          (from_float fl (vx (cam_data.position r))))
        in f_eq fl fx fy
         \<and> ml = make_camera_info_msg ''left_cam'' (cam_parameters.width (parameters l))
                  (cam_parameters.height (parameters l)) (NpFloat fx) (NpFloat fy)
                  (PyFloat cx) (PyFloat cy) (PyInt 0) (PyInt 0)
         \<and> mr = make_camera_info_msg ''right_cam'' (cam_parameters.width (parameters l))
                  (cam_parameters.height (parameters l)) (NpFloat fx) (NpFloat fy)
                  (PyFloat cx) (PyFloat cy) (NpFloat (f_mul fl (f_neg fl fx) baseline)) (PyInt 0))"
    by blast
  have lastp: "last (fst (generate_camera_info_body fl (cam_parameters.width (parameters l))
        (cam_parameters.height (parameters l)) (fov (parameters l)) l r))
      = (''Baseline: '', NpFloat (f_abs fl (f_sub fl (from_float fl (vx (cam_data.position l)))
                                          (from_float fl (vx (cam_data.position r))))))"
    using c rest unfolding generate_camera_info_body_def Let_def by simp
  show ?thesis
    apply (rule exI [of _ w], rule exI [of _ h], rule exI [of _ w'], rule exI [of _ h'],
           rule exI [of _ cx], rule exI [of _ cy])
    using c rest lastp body
    by (simp add: Let_def make_camera_info_msg_def zero_pyval_def one_pyval_def)
qed

theorem generate_camera_info_intrinsics_witness:
  "cam_parameters.width (parameters stereo_left) = cam_parameters.width (parameters stereo_right)
   \<and> cam_parameters.height (parameters stereo_left) = cam_parameters.height (parameters stereo_right)
   \<and> fov (parameters stereo_left) = fov (parameters stereo_right)
   \<and> 0 < cam_parameters.width (parameters stereo_left)
   \<and> 0 < cam_parameters.height (parameters stereo_left)
   \<and> (\<exists>ml mr. snd (generate_camera_info exact_float64 stereo_left stereo_right) = Inr (ml, mr)
        \<and> P ml = [NpFloat (240 * sqrt 3), PyInt 0, PyFloat 320, PyInt 0,
                   PyInt 0, NpFloat (240 * sqrt 3), PyFloat 240, PyInt 0,
                   PyInt 0, PyInt 0, PyInt 1, PyInt 0]
        \<and> P mr = [NpFloat (240 * sqrt 3), PyInt 0, PyFloat 320, NpFloat (- (24 * sqrt 3)),
                   PyInt 0, NpFloat (240 * sqrt 3), PyFloat 240, PyInt 0,
                   PyInt 0, PyInt 0, PyInt 1, PyInt 0])"
proof -
  have pre: "cam_parameters.width (parameters stereo_left) = cam_parameters.width (parameters stereo_right)"
    "cam_parameters.height (parameters stereo_left) = cam_parameters.height (parameters stereo_right)"
    "fov (parameters stereo_left) = fov (parameters stereo_right)"
    "0 < cam_parameters.width (parameters stereo_left)"
    "0 < cam_parameters.height (parameters stereo_left)"
    by (simp_all add: stereo_left_def stereo_right_def)
  have "generate_camera_info exact_float64 stereo_left stereo_right
          = generate_camera_info_body exact_float64 640 480 60 stereo_left stereo_right"
    using generate_camera_info_passes [OF pre, of exact_float64] by (simp add: stereo_left_def)
  then obtain ml mr where ret:
    "snd (generate_camera_info exact_float64 stereo_left stereo_right) = Inr (ml, mr)"
    by (simp add: stereo_body)
  have h: "py_half 640 = Some 320" "py_half 480 = Some 240"
    using py_half_small [of 640] py_half_small [of 480] by simp_all
  have "P ml = [NpFloat (240 * sqrt 3), PyInt 0, PyFloat 320, PyInt 0,
                   PyInt 0, NpFloat (240 * sqrt 3), PyFloat 240, PyInt 0,
                   PyInt 0, PyInt 0, PyInt 1, PyInt 0]
        \<and> P mr = [NpFloat (240 * sqrt 3), PyInt 0, PyFloat 320, NpFloat (- (24 * sqrt 3)),
                   PyInt 0, NpFloat (240 * sqrt 3), PyFloat 240, PyInt 0,
                   PyInt 0, PyInt 0, PyInt 1, PyInt 0]"
    using generate_camera_info_intrinsics [OF pre ret]
    by (simp add: Let_def exact_float64_def stereo_left_def stereo_right_def h tan_30_deg tan_30
          tan_arctan exact_half_angle)
  then show ?thesis using pre ret by blast
qed

text \<open>
  C4 as stated fails: a pair of width 643 satisfies the five preconditions, and under every
  float64 arithmetic the calculator raises before a baseline or a message exists.
\<close>

theorem generate_camera_info_odd_pair_stops:
  "cam_parameters.width (parameters odd_left) = cam_parameters.width (parameters odd_right)
   \<and> cam_parameters.height (parameters odd_left) = cam_parameters.height (parameters odd_right)
   \<and> fov (parameters odd_left) = fov (parameters odd_right)
   \<and> 0 < cam_parameters.width (parameters odd_left)
   \<and> 0 < cam_parameters.height (parameters odd_left)
   \<and> (\<forall>fl. \<exists>e. snd (generate_camera_info fl odd_left odd_right) = Inl e)"
proof -
  have pre: "cam_parameters.width (parameters odd_left) = cam_parameters.width (parameters odd_right)"
    "cam_parameters.height (parameters odd_left) = cam_parameters.height (parameters odd_right)"
    "fov (parameters odd_left) = fov (parameters odd_right)"
    "0 < cam_parameters.width (parameters odd_left)"
    "0 < cam_parameters.height (parameters odd_left)"
    by (simp_all add: odd_left_def odd_right_def)
  have h: "py_half 643 = Some (643 / 2)" using py_half_small [of 643] by simp
  have ne: "(643 / 2 :: real) \<noteq> real_of_int (643 div 2)" by simp
  have "\<exists>e. snd (generate_camera_info fl odd_left odd_right) = Inl e" for fl :: "'f float64"
    using odd_body_stops [OF h ne, of fl 480 60 odd_left odd_right]
      generate_camera_info_passes [OF pre, of fl]
    by (simp add: odd_left_def)
  then show ?thesis using pre by blast
qed

text \<open>
  C5. The intrinsics calculator fails with the invalid-configuration condition (a failed
  assertion), before computing any intrinsics (nothing has been printed), whenever
  \<open>left.width \<noteq> right.width\<close>, or \<open>left.height \<noteq> right.height\<close>, or
  \<open>left.fov_vertical_deg \<noteq> right.fov_vertical_deg\<close>, or \<open>width \<le> 0\<close>, or \<open>height \<le> 0\<close>; when
  all five preconditions hold, none of these checks fires.
\<close>

theorem generate_camera_info_preconditions:
  "(cam_parameters.width (parameters l) \<noteq> cam_parameters.width (parameters r)
      \<or> cam_parameters.height (parameters l) \<noteq> cam_parameters.height (parameters r)
      \<or> fov (parameters l) \<noteq> fov (parameters r)
      \<or> cam_parameters.width (parameters l) \<le> 0
      \<or> cam_parameters.height (parameters l) \<le> 0
    \<longrightarrow> fst (generate_camera_info fl l r) = []
        \<and> (\<exists>e. e \<in> set precondition_checks
               \<and> snd (generate_camera_info fl l r) = Inl (AssertionError e)))
   \<and> (cam_parameters.width (parameters l) = cam_parameters.width (parameters r)
      \<and> cam_parameters.height (parameters l) = cam_parameters.height (parameters r)
      \<and> fov (parameters l) = fov (parameters r)
      \<and> 0 < cam_parameters.width (parameters l)
      \<and> 0 < cam_parameters.height (parameters l)
    \<longrightarrow> (\<forall>e. e \<in> set precondition_checks
               \<longrightarrow> snd (generate_camera_info fl l r) \<noteq> Inl (AssertionError e)))"
proof (intro conjI impI allI)
  assume bad: "cam_parameters.width (parameters l) \<noteq> cam_parameters.width (parameters r)
      \<or> cam_parameters.height (parameters l) \<noteq> cam_parameters.height (parameters r)
      \<or> fov (parameters l) \<noteq> fov (parameters r)
      \<or> cam_parameters.width (parameters l) \<le> 0
      \<or> cam_parameters.height (parameters l) \<le> 0"
  from generate_camera_info_rejects [OF bad]
  obtain e where e: "e \<in> set precondition_checks"
    "generate_camera_info fl l r = ([], Inl (AssertionError e))" by blast
  show "fst (generate_camera_info fl l r) = []" using e by simp
  show "\<exists>e. e \<in> set precondition_checks \<and> snd (generate_camera_info fl l r) = Inl (AssertionError e)"
    using e by auto
next
  fix e
  assume ok: "cam_parameters.width (parameters l) = cam_parameters.width (parameters r)
      \<and> cam_parameters.height (parameters l) = cam_parameters.height (parameters r)
      \<and> fov (parameters l) = fov (parameters r)
      \<and> 0 < cam_parameters.width (parameters l)
      \<and> 0 < cam_parameters.height (parameters l)"
    and e: "e \<in> set precondition_checks"
  show "snd (generate_camera_info fl l r) \<noteq> Inl (AssertionError e)"
  proof
    assume "snd (generate_camera_info fl l r) = Inl (AssertionError e)"
    then have "snd (generate_camera_info_body fl (cam_parameters.width (parameters l))
                 (cam_parameters.height (parameters l)) (fov (parameters l)) l r)
               = Inl (AssertionError e)"
      using ok by (simp add: generate_camera_info_passes)
    from generate_camera_info_body_failures [OF this]
    show False using e by (auto simp: precondition_checks_def)
  qed
qed

theorem generate_camera_info_preconditions_witness:
  "(cam_parameters.width (parameters stereo_left) \<noteq> cam_parameters.width (parameters narrow_right)
    \<and> generate_camera_info exact_float64 stereo_left narrow_right
        = ([], Inl (AssertionError ''width_left == width_right'')))
   \<and> (cam_parameters.width (parameters stereo_left) = cam_parameters.width (parameters stereo_right)
      \<and> cam_parameters.height (parameters stereo_left) = cam_parameters.height (parameters stereo_right)
      \<and> fov (parameters stereo_left) = fov (parameters stereo_right)
      \<and> 0 < cam_parameters.width (parameters stereo_left)
      \<and> 0 < cam_parameters.height (parameters stereo_left)
      \<and> snd (generate_camera_info exact_float64 stereo_left stereo_right)
           \<noteq> Inl (AssertionError ''width_left == width_right'')
      \<and> snd (generate_camera_info exact_float64 stereo_left stereo_right)
           \<noteq> Inl (AssertionError ''width_left > 0''))"
proof -
  have bad: "cam_parameters.width (parameters stereo_left) \<noteq> cam_parameters.width (parameters narrow_right)"
    by (simp add: stereo_left_def narrow_right_def)
  have "fst (generate_camera_info exact_float64 stereo_left narrow_right) = []
        \<and> (\<exists>e. e \<in> set precondition_checks
               \<and> snd (generate_camera_info exact_float64 stereo_left narrow_right) = Inl (AssertionError e))"
    using generate_camera_info_preconditions [of stereo_left narrow_right exact_float64] bad by blast
  moreover have "snd (generate_camera_info exact_float64 stereo_left narrow_right)
                   = Inl (AssertionError ''width_left == width_right'')"
    by (simp add: generate_camera_info_def stereo_left_def narrow_right_def)
  ultimately have one: "generate_camera_info exact_float64 stereo_left narrow_right
        = ([], Inl (AssertionError ''width_left == width_right''))"
    by (simp add: prod_eq_iff)
  have pre: "cam_parameters.width (parameters stereo_left) = cam_parameters.width (parameters stereo_right)
      \<and> cam_parameters.height (parameters stereo_left) = cam_parameters.height (parameters stereo_right)
      \<and> fov (parameters stereo_left) = fov (parameters stereo_right)
      \<and> 0 < cam_parameters.width (parameters stereo_left)
      \<and> 0 < cam_parameters.height (parameters stereo_left)"
    by (simp add: stereo_left_def stereo_right_def)
  then have "\<forall>e. e \<in> set precondition_checks
               \<longrightarrow> snd (generate_camera_info exact_float64 stereo_left stereo_right) \<noteq> Inl (AssertionError e)"
    using generate_camera_info_preconditions [of stereo_left stereo_right exact_float64] by blast
  then have two: "snd (generate_camera_info exact_float64 stereo_left stereo_right)
           \<noteq> Inl (AssertionError ''width_left == width_right'')"
      "snd (generate_camera_info exact_float64 stereo_left stereo_right)
           \<noteq> Inl (AssertionError ''width_left > 0'')"
    by (simp_all add: precondition_checks_def)
  show ?thesis using bad one pre two by blast
qed




text \<open>
  C8. For every input, the message builder produces exactly
  \<open>K = [fx,0,cx, 0,fy,cy, 0,0,1]\<close>, the rectification \<open>R\<close> equal to the 3x3 identity (in
  row-major order), the distortion model \<open>"plumb_bob"\<close> with coefficients \<open>[0,0,0,0]\<close>, and
  the projection \<open>P = [fx,0,cx,Tx, 0,fy,cy,Ty, 0,0,1,0]\<close>, with no other values in those
  positions.
\<close>

theorem make_camera_info_msg_layout:
  "K (make_camera_info_msg fid w h fx fy cx cy Tx Ty) = [fx, 0, cx, 0, fy, cy, 0, 0, 1]
   \<and> R (make_camera_info_msg fid w h fx fy cx cy Tx Ty) = [1, 0, 0, 0, 1, 0, 0, 0, 1]
   \<and> R (make_camera_info_msg fid w h fx fy cx cy Tx Ty)
       = concat (map (\<lambda>i. map (\<lambda>j. if i = j then 1 else 0) [0 ..< 3]) [0 ..< 3])
   \<and> distortion_model (make_camera_info_msg fid w h fx fy cx cy Tx Ty) = ''plumb_bob''
   \<and> D (make_camera_info_msg fid w h fx fy cx cy Tx Ty) = [0, 0, 0, 0]
   \<and> P (make_camera_info_msg fid w h fx fy cx cy Tx Ty)
       = [fx, 0, cx, Tx, 0, fy, cy, Ty, 0, 0, 1, 0]
   \<and> camera_info.frame_id (make_camera_info_msg fid w h fx fy cx cy Tx Ty) = fid
   \<and> camera_info.width (make_camera_info_msg fid w h fx fy cx cy Tx Ty) = w
   \<and> camera_info.height (make_camera_info_msg fid w h fx fy cx cy Tx Ty) = h"
  by (simp add: make_camera_info_msg_def upt_rec)

section \<open>Properties of \<open>metadata_to_imu\<close>\<close>



end
